theory Spec2Isabelle
  imports Main
begin

section \<open>WrappedClient: command registration, dispatch and authorization\<close>

text \<open>
  A shallow embedding of the class \<^verbatim>\<open>WrappedClient\<close> of \<^verbatim>\<open>src/WrappedClient.ts\<close>.
  The mutable fields of the class, the pending payloads of the \<^verbatim>\<open>Payload\<close> module, the
  listeners of the underlying client and the console are one record that every method
  takes and returns. A listener returns the callbacks it invoked, in order, and the
  error it raised, if any. Strings are \<^typ>\<open>string\<close>; a user-supplied callback is an
  opaque handle, and invoking it is recorded, not interpreted.
\<close>

subsection \<open>Platform objects\<close>

record user =
  userId :: string
  bot :: bool

text \<open>
  A guild member: \<open>memberPermissions\<close> is \<^verbatim>\<open>member.permissions.toArray()\<close>, the names of
  the capability flags the member holds; \<open>roles\<close> is the list of the \<^verbatim>\<open>role.id\<close> of
  \<^verbatim>\<open>member.roles.cache\<close>.
\<close>

record member =
  user :: user
  memberPermissions :: "string list"
  roles :: "string list"

record message =
  content :: string
  member :: "member option"

record guild =
  members :: "string \<rightharpoonup> member"

record channel =
  messages :: "string \<rightharpoonup> message"

datatype targetType = USER | MESSAGE

type_synonym hoistedOptions = "(string \<times> string) list"

text \<open>
  The interaction classes the listener tells apart with the type guards
  \<^verbatim>\<open>isCommand\<close>, \<^verbatim>\<open>isButton\<close>, \<^verbatim>\<open>isContextMenu\<close> and \<^verbatim>\<open>isSelectMenu\<close>; each carries the
  fields the listener reads after its guard: \<^verbatim>\<open>commandName\<close> and the hoisted options;
  \<^verbatim>\<open>customId\<close>; \<^verbatim>\<open>commandName\<close>, \<^verbatim>\<open>targetType\<close>, \<^verbatim>\<open>targetId\<close>, \<^verbatim>\<open>guild\<close> and \<^verbatim>\<open>channel\<close>;
  \<^verbatim>\<open>customId\<close>. Any other interaction passes none of the four guards.
\<close>

datatype interaction =
    CommandInteraction string hoistedOptions
  | ButtonInteraction string
  | ContextMenuInteraction string targetType string "guild option" "channel option"
  | SelectMenuInteraction string
  | OtherInteraction

fun isCommand :: "interaction \<Rightarrow> bool" where
  "isCommand (CommandInteraction _ _) = True"
| "isCommand _ = False"

fun isButton :: "interaction \<Rightarrow> bool" where
  "isButton (ButtonInteraction _) = True"
| "isButton _ = False"

fun isContextMenu :: "interaction \<Rightarrow> bool" where
  "isContextMenu (ContextMenuInteraction _ _ _ _ _) = True"
| "isContextMenu _ = False"

fun isSelectMenu :: "interaction \<Rightarrow> bool" where
  "isSelectMenu (SelectMenuInteraction _) = True"
| "isSelectMenu _ = False"

subsection \<open>Command definitions\<close>

datatype callback = Callback nat

text \<open>
  Modelled from the spec: the type of a command's permissions object is declared outside
  \<^verbatim>\<open>WrappedClient.ts\<close>. The listener reads three optional members of it, \<^verbatim>\<open>flags\<close>,
  \<^verbatim>\<open>allowed\<close> and \<^verbatim>\<open>denied\<close>, and asks each only \<^verbatim>\<open>has(x)\<close>; following the spec
  (a set of capability flags, an allow list and a deny list of role identifiers) each is
  a set, \<^verbatim>\<open>has\<close> is membership, and an absent member is \<open>None\<close>.
\<close>

record permissionSet =
  flags :: "string set option"
  allowed :: "string set option"
  denied :: "string set option"

text \<open>
  Modelled from the spec: the classes \<^verbatim>\<open>MessageCommand\<close>, \<^verbatim>\<open>SlashCommand\<close>,
  \<^verbatim>\<open>ContextMenuCommand\<close>, \<^verbatim>\<open>ButtonCommand\<close> and \<^verbatim>\<open>SelectMenuCommand\<close> are declared outside
  \<^verbatim>\<open>WrappedClient.ts\<close>. A text command has an identifier, an optional callback
  (\<^verbatim>\<open>getCallback()\<close>, also read as the property \<^verbatim>\<open>callback\<close>) and an optional permission
  rule set (\<^verbatim>\<open>getPermissions()\<close>); an interaction command has in addition its class, an
  optional guild id (\<^verbatim>\<open>getGuildId()\<close>) and its declarative data (\<^verbatim>\<open>getData()\<close>), which is
  opaque.
\<close>

record messageCommand =
  name :: string
  callback :: "callback option"
  permissions :: "permissionSet option"

datatype commandClass = SlashCommand | ContextMenuCommand | ButtonCommand | SelectMenuCommand

record command = messageCommand +
  commandClass :: commandClass
  guildId :: "string option"
  data :: string

subsection \<open>Objects used as dictionaries\<close>

text \<open>
  \<^verbatim>\<open>messageCommands\<close> and \<^verbatim>\<open>commands\<close> are object literals \<^verbatim>\<open>{}\<close> indexed by a string.
  Reading \<^verbatim>\<open>obj[k]\<close> gives the own property when there is one, a member of
  \<^verbatim>\<open>Object.prototype\<close> (a function or an object, so a truthy value without the members of
  a command) when \<^verbatim>\<open>k\<close> names one, and \<^verbatim>\<open>undefined\<close> otherwise.
\<close>

datatype 'a property = Own 'a | Inherited | Undefined

definition objectPrototypeKeys :: "string list" where
  "objectPrototypeKeys =
     [''constructor'', ''__defineGetter__'', ''__defineSetter__'', ''hasOwnProperty'',
      ''__lookupGetter__'', ''__lookupSetter__'', ''isPrototypeOf'', ''propertyIsEnumerable'',
      ''toString'', ''valueOf'', ''__proto__'', ''toLocaleString'']"

definition getProperty :: "(string \<rightharpoonup> 'a) \<Rightarrow> string \<Rightarrow> 'a property" where
  "getProperty obj k =
     (case obj k of
        Some v \<Rightarrow> Own v
      | None \<Rightarrow> if k \<in> set objectPrototypeKeys then Inherited else Undefined)"

fun truthy :: "'a property \<Rightarrow> bool" where
  "truthy Undefined = False"
| "truthy _ = True"

subsection \<open>The state\<close>

datatype payload =
    GlobalPayload string
  | GuildPayload string string "permissionSet option"

datatype handler = ReadyHandler | MessageCreateHandler | InteractionCreateHandler | UserHandler nat

datatype clientEvent =
  ClientEvent (eventName: string) (once: bool) (eventCallback: "handler option")

datatype listener = On string handler | Once string handler

text \<open>
  \<open>prefix\<close>, \<open>messageCommands\<close> and \<open>commands\<close> are the fields of the class.
  \<open>payloads\<close> is what \<^verbatim>\<open>Payload.addGlobalPayload\<close> and \<^verbatim>\<open>Payload.addGuildPayload\<close> have been
  given, \<open>listeners\<close> what \<^verbatim>\<open>client.on\<close> and \<^verbatim>\<open>client.once\<close> have been given, and \<open>console\<close>
  the lines written by \<^verbatim>\<open>console.log\<close> and \<^verbatim>\<open>console.warn\<close>, each oldest first.
\<close>

record wrappedClient =
  prefix :: string
  messageCommands :: "string \<rightharpoonup> messageCommand"
  commands :: "string \<rightharpoonup> command"
  payloads :: "payload list"
  listeners :: "listener list"
  console :: "string list"

definition newWrappedClient :: "string option \<Rightarrow> wrappedClient" where
  "newWrappedClient p =
     \<lparr>prefix = (case p of None \<Rightarrow> ''!'' | Some q \<Rightarrow> if q \<noteq> [] then q else ''!''),
      messageCommands = Map.empty, commands = Map.empty,
      payloads = [], listeners = [], console = []\<rparr>"

definition setPrefix :: "string \<Rightarrow> wrappedClient \<Rightarrow> wrappedClient" where
  "setPrefix p s = s\<lparr>prefix := p\<rparr>"

definition getPrefix :: "wrappedClient \<Rightarrow> string" where
  "getPrefix s = prefix s"

subsection \<open>Registration\<close>

definition registerEvent :: "clientEvent \<Rightarrow> wrappedClient \<Rightarrow> bool \<times> wrappedClient" where
  "registerEvent event s =
     (case eventCallback event of
        Some cb \<Rightarrow>
          (if once event
           then (False, s\<lparr>listeners := listeners s @ [Once (eventName event) cb],
                          console := console s @ [''Registered '' @ eventName event @ '' as once.'']\<rparr>)
           else (False, s\<lparr>listeners := listeners s @ [On (eventName event) cb],
                          console := console s @ [''Registered '' @ eventName event @ '' as once.'']\<rparr>))
      | None \<Rightarrow> (False, s))"

definition registerMessageCommand :: "messageCommand \<Rightarrow> wrappedClient \<Rightarrow> bool \<times> wrappedClient" where
  "registerMessageCommand command s =
     (if truthy (getProperty (messageCommands s) (name command))
      then (False, s\<lparr>console := console s @
                       [''A command with name ['' @ name command @ ''] already exists.'']\<rparr>)
      else if callback command = None
      then (False, s\<lparr>console := console s @ [name command @ '' does not have a callback set.'']\<rparr>)
      else (True, s\<lparr>messageCommands := (messageCommands s)(name command \<mapsto> command)\<rparr>))"

text \<open>
  Modelled from the spec: the module \<^verbatim>\<open>Payload\<close> is outside \<^verbatim>\<open>WrappedClient.ts\<close>. Each of its
  two functions adds one entry to the pending outbound payloads.
\<close>

definition addGlobalPayload :: "string \<Rightarrow> wrappedClient \<Rightarrow> wrappedClient" where
  "addGlobalPayload d s = s\<lparr>payloads := payloads s @ [GlobalPayload d]\<rparr>"

definition addGuildPayload ::
  "string \<Rightarrow> string \<Rightarrow> permissionSet option \<Rightarrow> wrappedClient \<Rightarrow> wrappedClient" where
  "addGuildPayload g d p s = s\<lparr>payloads := payloads s @ [GuildPayload g d p]\<rparr>"

text \<open>
  What \<^verbatim>\<open>registerCommandObject\<close> does to the console, to \<^verbatim>\<open>this.commands\<close> and to the
  \<^verbatim>\<open>Payload\<close> module, one constructor for each statement of the method that has such an
  effect: \<^verbatim>\<open>console.warn(line)\<close>, \<^verbatim>\<open>this.commands[command.name] = command\<close>,
  \<^verbatim>\<open>Payload.addGuildPayload(guildId, data, permissions)\<close> and
  \<^verbatim>\<open>Payload.addGlobalPayload(data)\<close>.
\<close>

datatype effect =
    Warn string
  | StoreCommand command
  | AddGuildPayload string string "permissionSet option"
  | AddGlobalPayload string

fun perform :: "effect \<Rightarrow> wrappedClient \<Rightarrow> wrappedClient" where
  "perform (Warn line) s = s\<lparr>console := console s @ [line]\<rparr>"
| "perform (StoreCommand command) s = s\<lparr>commands := (commands s)(name command \<mapsto> command)\<rparr>"
| "perform (AddGuildPayload g d p) s = addGuildPayload g d p s"
| "perform (AddGlobalPayload d) s = addGlobalPayload d s"

text \<open>
  Lines 187 to 194 of \<^verbatim>\<open>registerCommandObject\<close>. A guild id is truthy when it is present
  and not the empty string.
\<close>

definition forwardPayload :: "command \<Rightarrow> effect list" where
  "forwardPayload command =
     (if commandClass command = SlashCommand \<or> commandClass command = ContextMenuCommand
      then (case guildId command of
              Some g \<Rightarrow>
                if g \<noteq> [] then [AddGuildPayload g (data command) (permissions command)]
                else [AddGlobalPayload (data command)]
            | None \<Rightarrow> [AddGlobalPayload (data command)])
      else [])"

text \<open>
  The result of \<^verbatim>\<open>registerCommandObject\<close> and its effects in the order in which the
  method runs them: the warning of a rejected registration; for an accepted one the
  assignment of line 185, then what lines 187 to 194 forward.
\<close>

definition registerCommandObjectEffects :: "command \<Rightarrow> wrappedClient \<Rightarrow> bool \<times> effect list" where
  "registerCommandObjectEffects command s =
     (if truthy (getProperty (commands s) (name command))
      then (False, [Warn (''A command with name ['' @ name command @ ''] already exists.'')])
      else if callback command = None
      then (False, [Warn (name command @ '' does not have a callback set.'')])
      else (True, StoreCommand command # forwardPayload command))"

text \<open>The method: its effects performed on the state one after the other, first to last.\<close>

definition registerCommandObject :: "command \<Rightarrow> wrappedClient \<Rightarrow> bool \<times> wrappedClient" where
  "registerCommandObject command s =
     (fst (registerCommandObjectEffects command s),
      fold perform (snd (registerCommandObjectEffects command s)) s)"

subsection \<open>The outcome of a listener\<close>

datatype error = TypeError

datatype target = UserTarget user | MessageTarget message

datatype call =
    MessageCall callback message "string list"
  | SlashCall callback interaction hoistedOptions
  | ButtonCall callback interaction
  | ContextMenuCall callback interaction "target option"
  | SelectMenuCall callback interaction

record outcome =
  calls :: "call list"
  raised :: "error option"

definition silent :: outcome where
  "silent = \<lparr>calls = [], raised = None\<rparr>"

definition invoke :: "call \<Rightarrow> outcome" where
  "invoke c = \<lparr>calls = [c], raised = None\<rparr>"

definition raise :: "error \<Rightarrow> outcome" where
  "raise e = \<lparr>calls = [], raised = Some e\<rparr>"

text \<open>Statements in sequence: what follows a raised error does not run.\<close>

definition andThen :: "outcome \<Rightarrow> outcome \<Rightarrow> outcome" where
  "andThen a b =
     (case raised a of
        Some e \<Rightarrow> a
      | None \<Rightarrow> \<lparr>calls = calls a @ calls b, raised = raised b\<rparr>)"

subsection \<open>The \<^verbatim>\<open>messageCreate\<close> listener\<close>

text \<open>
  \<^verbatim>\<open>content.split(" ")\<close>: the pieces between single spaces, empty pieces kept; the empty
  string gives one empty piece.
\<close>

fun split :: "string \<Rightarrow> string list" where
  "split [] = [[]]"
| "split (c # cs) =
     (if c = CHR '' '' then [] # split cs
      else (case split cs of
              [] \<Rightarrow> [[c]]
            | w # ws \<Rightarrow> (c # w) # ws))"

definition startsWith :: "string \<Rightarrow> string \<Rightarrow> bool" where
  "startsWith s p = (take (length p) s = p)"

definition substring :: "string \<Rightarrow> nat \<Rightarrow> string" where
  "substring s n = drop n s"

text \<open>\<^verbatim>\<open>xs.some(x => set.has(x))\<close> behind the guard that the set is present.\<close>

definition someIn :: "string list \<Rightarrow> string set option \<Rightarrow> bool" where
  "someIn xs S = (case S of None \<Rightarrow> False | Some T \<Rightarrow> list_ex (\<lambda>x. x \<in> T) xs)"

text \<open>
  Lines 66 to 91 of the listener: \<open>True\<close> where the source calls the callback, \<open>False\<close>
  where it returns without calling it.
\<close>

definition evaluate :: "member \<Rightarrow> permissionSet option \<Rightarrow> bool" where
  "evaluate author perms =
     (case perms of
        None \<Rightarrow> True
      | Some p \<Rightarrow>
          if someIn (memberPermissions author) (flags p) then True
          else if allowed p = None \<and> denied p = None then True
          else if someIn (roles author) (denied p) then False
          else if someIn (roles author) (allowed p) then True
          else False)"

definition messageCreate :: "message \<Rightarrow> wrappedClient \<Rightarrow> outcome \<times> wrappedClient" where
  "messageCreate msg s =
     (case split (content msg) of
        [] \<Rightarrow> (silent, s)
      | command # args \<Rightarrow>
          if command \<noteq> [] \<and> startsWith command (prefix s) then
            (case getProperty (messageCommands s) (substring command (length (prefix s))) of
               Undefined \<Rightarrow> (silent, s)
             | found \<Rightarrow>
                 (case member msg of
                    None \<Rightarrow> (silent, s)
                  | Some author \<Rightarrow>
                      if bot (user author) then (silent, s)
                      else (case found of
                              Own commandData \<Rightarrow>
                                (case callback commandData of
                                   None \<Rightarrow> (silent, s)
                                 | Some cb \<Rightarrow>
                                     if evaluate author (permissions commandData)
                                     then (invoke (MessageCall cb msg args), s)
                                     else (silent, s))
                            | _ \<Rightarrow> (raise TypeError, s))))
          else (silent, s))"

subsection \<open>The \<^verbatim>\<open>interactionCreate\<close> listener\<close>

text \<open>
  \<^verbatim>\<open>this.commands[k].callback\<close>: reading a member of \<^verbatim>\<open>undefined\<close> raises a TypeError; a
  member of \<^verbatim>\<open>Object.prototype\<close> has no \<^verbatim>\<open>callback\<close>.
\<close>

definition callbackOf :: "wrappedClient \<Rightarrow> string \<Rightarrow> error + callback option" where
  "callbackOf s k =
     (case getProperty (commands s) k of
        Undefined \<Rightarrow> Inl TypeError
      | Inherited \<Rightarrow> Inr None
      | Own c \<Rightarrow> Inr (callback c))"

text \<open>Lines 116 to 132: the target of a context-menu interaction.\<close>

definition resolveTarget ::
  "targetType \<Rightarrow> string \<Rightarrow> guild option \<Rightarrow> channel option \<Rightarrow> target option" where
  "resolveTarget ty targetId g ch =
     (case g of
        None \<Rightarrow> None
      | Some gd \<Rightarrow>
          (case ty of
             USER \<Rightarrow> (case members gd targetId of
                        None \<Rightarrow> None
                      | Some m \<Rightarrow> Some (UserTarget (user m)))
           | MESSAGE \<Rightarrow> (case ch of
                           None \<Rightarrow> None
                         | Some c \<Rightarrow> (case messages c targetId of
                                        None \<Rightarrow> None
                                      | Some m \<Rightarrow> Some (MessageTarget m)))))"

text \<open>The four \<^verbatim>\<open>if\<close> blocks of the listener, one definition each.\<close>

definition commandBlock :: "interaction \<Rightarrow> wrappedClient \<Rightarrow> outcome" where
  "commandBlock i s =
     (case i of
        CommandInteraction commandName opts \<Rightarrow>
          (case callbackOf s commandName of
             Inl e \<Rightarrow> raise e
           | Inr None \<Rightarrow> silent
           | Inr (Some cb) \<Rightarrow> invoke (SlashCall cb i opts))
      | _ \<Rightarrow> silent)"

definition buttonBlock :: "interaction \<Rightarrow> wrappedClient \<Rightarrow> outcome" where
  "buttonBlock i s =
     (case i of
        ButtonInteraction customId \<Rightarrow>
          (case callbackOf s customId of
             Inl e \<Rightarrow> raise e
           | Inr None \<Rightarrow> silent
           | Inr (Some cb) \<Rightarrow> invoke (ButtonCall cb i))
      | _ \<Rightarrow> silent)"

definition contextMenuBlock :: "interaction \<Rightarrow> wrappedClient \<Rightarrow> outcome" where
  "contextMenuBlock i s =
     (case i of
        ContextMenuInteraction commandName ty targetId g ch \<Rightarrow>
          (case callbackOf s commandName of
             Inl e \<Rightarrow> raise e
           | Inr None \<Rightarrow> silent
           | Inr (Some cb) \<Rightarrow> invoke (ContextMenuCall cb i (resolveTarget ty targetId g ch)))
      | _ \<Rightarrow> silent)"

definition selectMenuBlock :: "interaction \<Rightarrow> wrappedClient \<Rightarrow> outcome" where
  "selectMenuBlock i s =
     (case i of
        SelectMenuInteraction customId \<Rightarrow>
          (case callbackOf s customId of
             Inl e \<Rightarrow> raise e
           | Inr None \<Rightarrow> silent
           | Inr (Some cb) \<Rightarrow> invoke (SelectMenuCall cb i))
      | _ \<Rightarrow> silent)"

definition interactionCreate :: "interaction \<Rightarrow> wrappedClient \<Rightarrow> outcome \<times> wrappedClient" where
  "interactionCreate i s =
     (andThen (commandBlock i s)
        (andThen (buttonBlock i s)
           (andThen (contextMenuBlock i s) (selectMenuBlock i s))), s)"

subsection \<open>\<^verbatim>\<open>login\<close>\<close>

text \<open>
  After the connection is made (outside this model), \<^verbatim>\<open>login\<close> registers the three
  listeners in this order.
\<close>

definition login :: "wrappedClient \<Rightarrow> wrappedClient" where
  "login s =
     snd (registerEvent (ClientEvent ''interactionCreate'' False (Some InteractionCreateHandler))
       (snd (registerEvent (ClientEvent ''messageCreate'' False (Some MessageCreateHandler))
         (snd (registerEvent (ClientEvent ''ready'' True (Some ReadyHandler)) s)))))"

section \<open>Properties\<close>

subsection \<open>Auxiliary facts\<close>

lemma getProperty_missing:
  "getProperty Map.empty ''missing'' = Undefined"
  by (simp add: getProperty_def objectPrototypeKeys_def)

lemma truthy_getProperty:
  "truthy (getProperty obj k) = (obj k \<noteq> None \<or> k \<in> set objectPrototypeKeys)"
  by (cases "obj k") (simp_all add: getProperty_def)

lemma getProperty_update:
  "getProperty (obj(k \<mapsto> v)) k = Own v"
  by (simp add: getProperty_def)

lemma registerMessageCommand_taken:
  "truthy (getProperty (messageCommands s) (name c)) \<Longrightarrow>
   registerMessageCommand c s =
     (False, s\<lparr>console := console s @ [''A command with name ['' @ name c @ ''] already exists.'']\<rparr>)"
  by (simp add: registerMessageCommand_def)

lemma registerMessageCommand_no_callback:
  "callback c = None \<Longrightarrow> fst (registerMessageCommand c s) = False
     \<and> messageCommands (snd (registerMessageCommand c s)) = messageCommands s"
  by (simp add: registerMessageCommand_def)

lemma registerMessageCommand_stored:
  "fst (registerMessageCommand c s) \<Longrightarrow>
   getProperty (messageCommands (snd (registerMessageCommand c s))) (name c) = Own c"
  by (auto simp add: registerMessageCommand_def getProperty_update split: if_splits)

lemma registerMessageCommand_then_taken:
  "callback c \<noteq> None \<Longrightarrow>
   truthy (getProperty (messageCommands (snd (registerMessageCommand c s))) (name c))"
  by (auto simp add: registerMessageCommand_def truthy_getProperty)

lemma forwardPayload_frame [simp]:
  "commands (fold perform (forwardPayload c) s) = commands s"
  "messageCommands (fold perform (forwardPayload c) s) = messageCommands s"
  "prefix (fold perform (forwardPayload c) s) = prefix s"
  "listeners (fold perform (forwardPayload c) s) = listeners s"
  "console (fold perform (forwardPayload c) s) = console s"
  by (simp_all add: forwardPayload_def addGlobalPayload_def addGuildPayload_def split: option.split)

lemma registerCommandObject_unfold:
  "registerCommandObject c s =
     (if truthy (getProperty (commands s) (name c))
      then (False, s\<lparr>console := console s @
                       [''A command with name ['' @ name c @ ''] already exists.'']\<rparr>)
      else if callback c = None
      then (False, s\<lparr>console := console s @ [name c @ '' does not have a callback set.'']\<rparr>)
      else (True, fold perform (forwardPayload c) (s\<lparr>commands := (commands s)(name c \<mapsto> c)\<rparr>)))"
  by (simp add: registerCommandObject_def registerCommandObjectEffects_def)

lemma registerCommandObject_taken:
  "truthy (getProperty (commands s) (name c)) \<Longrightarrow>
   registerCommandObject c s =
     (False, s\<lparr>console := console s @ [''A command with name ['' @ name c @ ''] already exists.'']\<rparr>)"
  by (simp add: registerCommandObject_unfold)

lemma registerCommandObject_no_callback:
  "callback c = None \<Longrightarrow> fst (registerCommandObject c s) = False
     \<and> commands (snd (registerCommandObject c s)) = commands s
     \<and> payloads (snd (registerCommandObject c s)) = payloads s"
  by (simp add: registerCommandObject_unfold)

lemma registerCommandObject_stored:
  "fst (registerCommandObject c s) \<Longrightarrow>
   getProperty (commands (snd (registerCommandObject c s))) (name c) = Own c"
  by (auto simp add: registerCommandObject_unfold getProperty_update split: if_splits)

lemma registerCommandObject_then_taken:
  "callback c \<noteq> None \<Longrightarrow>
   truthy (getProperty (commands (snd (registerCommandObject c s))) (name c))"
  by (auto simp add: registerCommandObject_unfold truthy_getProperty)





lemma split_greet:
  "split ''!greet alice bob'' = [''!greet'', ''alice'', ''bob'']"
  by simp

lemma messageCreate_invokes:
  assumes "split (content msg) = tok # args"
      and "tok \<noteq> []"
      and "startsWith tok (prefix s)"
      and "messageCommands s (substring tok (length (prefix s))) = Some c"
      and "callback c = Some cb"
      and "member msg = Some author"
      and "\<not> bot (user author)"
      and "evaluate author (permissions c)"
    shows "messageCreate msg s = (invoke (MessageCall cb msg args), s)"
  using assms by (simp add: messageCreate_def getProperty_def)

lemma callbackOf_own:
  "commands s n = Some c \<Longrightarrow> callbackOf s n = Inr (callback c)"
  by (simp add: callbackOf_def getProperty_def)

lemma interactionCreate_contextMenu:
  assumes "commands s n = Some c" and "callback c = Some cb"
  shows "interactionCreate (ContextMenuInteraction n ty tid g ch) s =
           (invoke (ContextMenuCall cb (ContextMenuInteraction n ty tid g ch)
                      (resolveTarget ty tid g ch)), s)"
  using assms
  by (simp add: interactionCreate_def commandBlock_def buttonBlock_def contextMenuBlock_def
      selectMenuBlock_def callbackOf_own andThen_def silent_def invoke_def)

lemma inherited_name_rejected:
  "fst (registerMessageCommand \<lparr>name = ''toString'', callback = Some cb, permissions = None\<rparr>
         (newWrappedClient None)) = False"
  by (simp add: registerMessageCommand_def newWrappedClient_def getProperty_def
      objectPrototypeKeys_def)

subsection \<open>Permission evaluation\<close>

text \<open>
  Counterexample to C2 as stated. The rule set lists the flag ADMINISTRATOR, which the
  actor does not hold; the actor is nevertheless allowed through the allow list, and
  denied when the allow list names another role: the role lists are consulted.
\<close>

theorem flags_alone_counterexample:
  "evaluate \<lparr>user = \<lparr>userId = ''u1'', bot = False\<rparr>, memberPermissions = [''SEND_MESSAGES''],
             roles = [''r1'']\<rparr>
     (Some \<lparr>flags = Some {''ADMINISTRATOR''}, allowed = Some {''r1''}, denied = None\<rparr>) = True
   \<and> \<not> someIn [''SEND_MESSAGES''] (Some {''ADMINISTRATOR''})
   \<and> evaluate \<lparr>user = \<lparr>userId = ''u1'', bot = False\<rparr>, memberPermissions = [''SEND_MESSAGES''],
             roles = [''r1'']\<rparr>
     (Some \<lparr>flags = Some {''ADMINISTRATOR''}, allowed = Some {''r2''}, denied = None\<rparr>) = False"
  by (simp add: evaluate_def someIn_def)

text \<open>
  C2, amended. With capability flags present: an actor holding one of the listed flags
  is allowed whatever the allow and deny lists are; for an actor holding none of them,
  when at least one of the two lists is present, the lists decide: allow exactly when
  the actor holds no role of the deny list and holds a role of the allow list.
\<close>

theorem evaluate_flags_then_lists:
  "(someIn (memberPermissions a) (Some F) \<longrightarrow>
      evaluate a (Some \<lparr>flags = Some F, allowed = A, denied = D\<rparr>) = True)
   \<and> (\<not> someIn (memberPermissions a) (Some F) \<and> (A \<noteq> None \<or> D \<noteq> None) \<longrightarrow>
      evaluate a (Some \<lparr>flags = Some F, allowed = A, denied = D\<rparr>) =
        (\<not> someIn (roles a) D \<and> someIn (roles a) A))"
  by (auto simp add: evaluate_def)

theorem evaluate_flags_then_lists_witness:
  "someIn [''ADMINISTRATOR''] (Some {''ADMINISTRATOR''})
   \<and> evaluate \<lparr>user = \<lparr>userId = ''u1'', bot = False\<rparr>, memberPermissions = [''ADMINISTRATOR''],
               roles = [''r1'']\<rparr>
        (Some \<lparr>flags = Some {''ADMINISTRATOR''}, allowed = None, denied = Some {''r1''}\<rparr>) = True
   \<and> \<not> someIn [''SEND_MESSAGES''] (Some {''ADMINISTRATOR''})
   \<and> evaluate \<lparr>user = \<lparr>userId = ''u2'', bot = False\<rparr>, memberPermissions = [''SEND_MESSAGES''],
               roles = [''r1'']\<rparr>
        (Some \<lparr>flags = Some {''ADMINISTRATOR''}, allowed = Some {''r1''}, denied = Some {''r9''}\<rparr>) = True"
  using evaluate_flags_then_lists
          [of "\<lparr>user = \<lparr>userId = ''u1'', bot = False\<rparr>, memberPermissions = [''ADMINISTRATOR''],
                roles = [''r1'']\<rparr>" "{''ADMINISTRATOR''}" None "Some {''r1''}"]
        evaluate_flags_then_lists
          [of "\<lparr>user = \<lparr>userId = ''u2'', bot = False\<rparr>, memberPermissions = [''SEND_MESSAGES''],
                roles = [''r1'']\<rparr>" "{''ADMINISTRATOR''}" "Some {''r1''}" "Some {''r9''}"]
  by (simp add: someIn_def)

text \<open>
  Counterexample to C3 as stated. A rule set whose flags, allow list and deny list are
  all present and empty denies.
\<close>

theorem empty_rule_set_counterexample:
  "evaluate \<lparr>user = \<lparr>userId = ''u1'', bot = False\<rparr>, memberPermissions = [''SEND_MESSAGES''],
             roles = [''r1'']\<rparr>
     (Some \<lparr>flags = Some {}, allowed = Some {}, denied = Some {}\<rparr>) = False"
  by (simp add: evaluate_def someIn_def)

text \<open>
  C3, amended. For a rule set that is present and whose flags, allow list and deny list
  are each absent or empty: it allows when the allow list and the deny list are both
  absent, and it denies when at least one of the two is present as an empty set.
\<close>

theorem evaluate_empty_rule_set:
  assumes "flags p = None \<or> flags p = Some {}"
      and "allowed p = None \<or> allowed p = Some {}"
      and "denied p = None \<or> denied p = Some {}"
    shows "evaluate a (Some p) = (allowed p = None \<and> denied p = None)"
  using assms by (auto simp add: evaluate_def someIn_def list_ex_iff)

theorem evaluate_empty_rule_set_witness:
  "evaluate \<lparr>user = \<lparr>userId = ''u1'', bot = False\<rparr>, memberPermissions = [''SEND_MESSAGES''],
             roles = [''r1'']\<rparr>
     (Some \<lparr>flags = Some {}, allowed = None, denied = None\<rparr>) = True"
  using evaluate_empty_rule_set
          [of "\<lparr>flags = Some {}, allowed = None, denied = None\<rparr>"
              "\<lparr>user = \<lparr>userId = ''u1'', bot = False\<rparr>, memberPermissions = [''SEND_MESSAGES''],
                roles = [''r1'']\<rparr>"]
  by simp

text \<open>
  C4. When no flag of the rule set is held by the actor (the flags are absent, empty or
  not matched) and the actor holds a role of the deny list, the evaluation denies,
  whatever the allow list contains.
\<close>

theorem deny_takes_precedence:
  assumes "\<not> someIn (memberPermissions a) (flags p)"
      and "denied p = Some D"
      and "r \<in> set (roles a)"
      and "r \<in> D"
    shows "evaluate a (Some p) = False"
  using assms by (auto simp add: evaluate_def someIn_def list_ex_iff)

theorem deny_takes_precedence_witness:
  "evaluate \<lparr>user = \<lparr>userId = ''u1'', bot = False\<rparr>, memberPermissions = [''SEND_MESSAGES''],
             roles = [''r1'', ''r2'']\<rparr>
     (Some \<lparr>flags = None, allowed = Some {''r1'', ''r2''}, denied = Some {''r1''}\<rparr>) = False"
  using deny_takes_precedence
          [of "\<lparr>user = \<lparr>userId = ''u1'', bot = False\<rparr>, memberPermissions = [''SEND_MESSAGES''],
                roles = [''r1'', ''r2'']\<rparr>"
              "\<lparr>flags = None, allowed = Some {''r1'', ''r2''}, denied = Some {''r1''}\<rparr>"
              "{''r1''}" "''r1''"]
  by (simp add: someIn_def)

subsection \<open>Registration\<close>

text \<open>
  Counterexample to C5 as stated. On a new client the definition \<^verbatim>\<open>ping\<close> without a
  callback is rejected and reserves nothing: the second registration of \<^verbatim>\<open>ping\<close>, with a
  callback, returns true and is the definition looked up. And the first registration of
  \<^verbatim>\<open>toString\<close>, with a callback, is itself rejected, so that after the second one the
  lookup finds the member of \<^verbatim>\<open>Object.prototype\<close>, not the first definition.
\<close>

theorem second_registration_counterexample:
  "fst (registerMessageCommand \<lparr>name = ''ping'', callback = None, permissions = None\<rparr>
         (newWrappedClient None)) = False
   \<and> fst (registerMessageCommand \<lparr>name = ''ping'', callback = Some (Callback 2), permissions = None\<rparr>
           (snd (registerMessageCommand
                   \<lparr>name = ''ping'', callback = None, permissions = None\<rparr>
                   (newWrappedClient None)))) = True
   \<and> getProperty
        (messageCommands
           (snd (registerMessageCommand
                   \<lparr>name = ''ping'', callback = Some (Callback 2), permissions = None\<rparr>
                   (snd (registerMessageCommand
                           \<lparr>name = ''ping'', callback = None, permissions = None\<rparr>
                           (newWrappedClient None))))))
        ''ping''
      = Own \<lparr>name = ''ping'', callback = Some (Callback 2), permissions = None\<rparr>
   \<and> fst (registerCommandObject
           \<lparr>name = ''ping'', callback = Some (Callback 4), permissions = None,
             commandClass = ButtonCommand, guildId = None, data = ''ping-button''\<rparr>
           (snd (registerCommandObject
                   \<lparr>name = ''ping'', callback = None, permissions = None,
                     commandClass = SlashCommand, guildId = None, data = ''ping-data''\<rparr>
                   (newWrappedClient None)))) = True
   \<and> fst (registerMessageCommand
           \<lparr>name = ''toString'', callback = Some (Callback 1), permissions = None\<rparr>
           (newWrappedClient None)) = False
   \<and> getProperty
        (messageCommands
           (snd (registerMessageCommand
                   \<lparr>name = ''toString'', callback = Some (Callback 2), permissions = None\<rparr>
                   (snd (registerMessageCommand
                           \<lparr>name = ''toString'', callback = Some (Callback 1), permissions = None\<rparr>
                           (newWrappedClient None))))))
        ''toString''
      = Inherited"
  by (simp add: registerMessageCommand_def registerCommandObject_unfold newWrappedClient_def
      getProperty_def objectPrototypeKeys_def)

text \<open>
  C5, amended. In each namespace, when the first of two definitions with the same
  identifier has a callback, the registration of the second returns false and leaves
  the registry as the first registration left it; when the first registration returned
  true, its definition is the one a lookup of the identifier finds afterwards. A
  definition without a callback is rejected: false is returned and the registry (and the
  pending payloads) are unchanged.
\<close>

theorem duplicate_registration_rejected:
  "(callback m1 \<noteq> None \<and> name m2 = name m1 \<longrightarrow>
      fst (registerMessageCommand m2 (snd (registerMessageCommand m1 s))) = False
      \<and> messageCommands (snd (registerMessageCommand m2 (snd (registerMessageCommand m1 s))))
          = messageCommands (snd (registerMessageCommand m1 s))
      \<and> (fst (registerMessageCommand m1 s) \<longrightarrow>
           getProperty
             (messageCommands (snd (registerMessageCommand m2 (snd (registerMessageCommand m1 s)))))
             (name m1) = Own m1))
   \<and> (callback c1 \<noteq> None \<and> name c2 = name c1 \<longrightarrow>
      fst (registerCommandObject c2 (snd (registerCommandObject c1 s))) = False
      \<and> commands (snd (registerCommandObject c2 (snd (registerCommandObject c1 s))))
          = commands (snd (registerCommandObject c1 s))
      \<and> payloads (snd (registerCommandObject c2 (snd (registerCommandObject c1 s))))
          = payloads (snd (registerCommandObject c1 s))
      \<and> (fst (registerCommandObject c1 s) \<longrightarrow>
           getProperty
             (commands (snd (registerCommandObject c2 (snd (registerCommandObject c1 s)))))
             (name c1) = Own c1))
   \<and> (callback m = None \<longrightarrow>
      fst (registerMessageCommand m s) = False
      \<and> messageCommands (snd (registerMessageCommand m s)) = messageCommands s)
   \<and> (callback c = None \<longrightarrow>
      fst (registerCommandObject c s) = False
      \<and> commands (snd (registerCommandObject c s)) = commands s
      \<and> payloads (snd (registerCommandObject c s)) = payloads s)"
proof (intro conjI impI)
  assume h: "callback m1 \<noteq> None \<and> name m2 = name m1"
  let ?s1 = "snd (registerMessageCommand m1 s)"
  from h have t: "truthy (getProperty (messageCommands ?s1) (name m2))"
    using registerMessageCommand_then_taken [of m1 s] by simp
  show "fst (registerMessageCommand m2 ?s1) = False"
    using registerMessageCommand_taken [OF t] by simp
  show same: "messageCommands (snd (registerMessageCommand m2 ?s1)) = messageCommands ?s1"
    using registerMessageCommand_taken [OF t] by simp
  assume "fst (registerMessageCommand m1 s)"
  then show "getProperty (messageCommands (snd (registerMessageCommand m2 ?s1))) (name m1) = Own m1"
    using registerMessageCommand_stored [of m1 s] same by simp
next
  assume h: "callback c1 \<noteq> None \<and> name c2 = name c1"
  let ?s1 = "snd (registerCommandObject c1 s)"
  from h have t: "truthy (getProperty (commands ?s1) (name c2))"
    using registerCommandObject_then_taken [of c1 s] by simp
  show "fst (registerCommandObject c2 ?s1) = False"
    using registerCommandObject_taken [OF t] by simp
  show same: "commands (snd (registerCommandObject c2 ?s1)) = commands ?s1"
    using registerCommandObject_taken [OF t] by simp
  show "payloads (snd (registerCommandObject c2 ?s1)) = payloads ?s1"
    using registerCommandObject_taken [OF t] by simp
  assume "fst (registerCommandObject c1 s)"
  then show "getProperty (commands (snd (registerCommandObject c2 ?s1))) (name c1) = Own c1"
    using registerCommandObject_stored [of c1 s] same by simp
next
  assume "callback m = None"
  then show "fst (registerMessageCommand m s) = False"
    and "messageCommands (snd (registerMessageCommand m s)) = messageCommands s"
    using registerMessageCommand_no_callback [of m s] by simp_all
next
  assume "callback c = None"
  then show "fst (registerCommandObject c s) = False"
    and "commands (snd (registerCommandObject c s)) = commands s"
    and "payloads (snd (registerCommandObject c s)) = payloads s"
    using registerCommandObject_no_callback [of c s] by simp_all
qed

theorem duplicate_registration_rejected_witness:
  "fst (registerMessageCommand \<lparr>name = ''ping'', callback = Some (Callback 1), permissions = None\<rparr>
         (newWrappedClient None))
   \<and> fst (registerMessageCommand \<lparr>name = ''ping'', callback = Some (Callback 2), permissions = None\<rparr>
           (snd (registerMessageCommand
                   \<lparr>name = ''ping'', callback = Some (Callback 1), permissions = None\<rparr>
                   (newWrappedClient None)))) = False
   \<and> getProperty
        (messageCommands
           (snd (registerMessageCommand
                   \<lparr>name = ''ping'', callback = Some (Callback 2), permissions = None\<rparr>
                   (snd (registerMessageCommand
                           \<lparr>name = ''ping'', callback = Some (Callback 1), permissions = None\<rparr>
                           (newWrappedClient None))))))
        ''ping''
      = Own \<lparr>name = ''ping'', callback = Some (Callback 1), permissions = None\<rparr>
   \<and> fst (registerCommandObject
           \<lparr>name = ''ping'', callback = Some (Callback 3), permissions = None,
             commandClass = SlashCommand, guildId = None, data = ''ping-data''\<rparr>
           (newWrappedClient None))
   \<and> fst (registerCommandObject
           \<lparr>name = ''ping'', callback = Some (Callback 4), permissions = None,
             commandClass = ButtonCommand, guildId = None, data = ''''\<rparr>
           (snd (registerCommandObject
                   \<lparr>name = ''ping'', callback = Some (Callback 3), permissions = None,
                     commandClass = SlashCommand, guildId = None, data = ''ping-data''\<rparr>
                   (newWrappedClient None)))) = False
   \<and> fst (registerMessageCommand \<lparr>name = ''pong'', callback = None, permissions = None\<rparr>
           (newWrappedClient None)) = False
   \<and> fst (registerCommandObject
           \<lparr>name = ''pong'', callback = None, permissions = None,
             commandClass = SlashCommand, guildId = None, data = ''pong-data''\<rparr>
           (newWrappedClient None)) = False"
  using duplicate_registration_rejected
          [of "\<lparr>name = ''ping'', callback = Some (Callback 1), permissions = None\<rparr>"
              "\<lparr>name = ''ping'', callback = Some (Callback 2), permissions = None\<rparr>"
              "newWrappedClient None"
              "\<lparr>name = ''ping'', callback = Some (Callback 3), permissions = None,
                commandClass = SlashCommand, guildId = None, data = ''ping-data''\<rparr>"
              "\<lparr>name = ''ping'', callback = Some (Callback 4), permissions = None,
                commandClass = ButtonCommand, guildId = None, data = ''''\<rparr>"
              "\<lparr>name = ''pong'', callback = None, permissions = None\<rparr>"
              "\<lparr>name = ''pong'', callback = None, permissions = None,
                commandClass = SlashCommand, guildId = None, data = ''pong-data''\<rparr>"]
  by (simp add: registerMessageCommand_def registerCommandObject_unfold newWrappedClient_def
      getProperty_def objectPrototypeKeys_def)




text \<open>
  C9. \<^verbatim>\<open>registerEvent\<close> returns false on every call, also when the event has a
  callback and is subscribed with \<^verbatim>\<open>on\<close> or \<^verbatim>\<open>once\<close>.
\<close>

theorem registerEvent_returns_false:
  "fst (registerEvent event s) = False
   \<and> registerEvent (ClientEvent n False (Some cb)) s =
       (False, s\<lparr>listeners := listeners s @ [On n cb],
                  console := console s @ [''Registered '' @ n @ '' as once.'']\<rparr>)
   \<and> registerEvent (ClientEvent n True (Some cb)) s =
       (False, s\<lparr>listeners := listeners s @ [Once n cb],
                  console := console s @ [''Registered '' @ n @ '' as once.'']\<rparr>)"
  by (simp add: registerEvent_def split: option.split)

subsection \<open>Dispatch of text messages\<close>

text \<open>
  C7. The content \<^verbatim>\<open>!greet alice bob\<close> splits into \<^verbatim>\<open>!greet\<close>, \<^verbatim>\<open>alice\<close>, \<^verbatim>\<open>bob\<close>,
  and removing the prefix \<^verbatim>\<open>!\<close> from the first token leaves \<^verbatim>\<open>greet\<close>. When the command
  is registered with a callback, the author is a member that is not a bot and the
  evaluation allows, the listener invokes the callback once, with the message itself and
  the tokens after the first; for this content, with \<^verbatim>\<open>alice\<close> and \<^verbatim>\<open>bob\<close>.
\<close>

theorem greet_tokenized:
  "split ''!greet alice bob'' = [''!greet'', ''alice'', ''bob'']
   \<and> startsWith ''!greet'' ''!''
   \<and> substring ''!greet'' (length ''!'') = ''greet''
   \<and> (prefix s = ''!'' \<and> content msg = ''!greet alice bob''
        \<and> messageCommands s ''greet'' = Some c \<and> callback c = Some cb
        \<and> member msg = Some author \<and> \<not> bot (user author)
        \<and> evaluate author (permissions c) \<longrightarrow>
      messageCreate msg s = (invoke (MessageCall cb msg [''alice'', ''bob'']), s))
   \<and> (split (content msg) = tok # args \<and> tok \<noteq> [] \<and> startsWith tok (prefix s)
        \<and> messageCommands s (substring tok (length (prefix s))) = Some c
        \<and> callback c = Some cb
        \<and> member msg = Some author \<and> \<not> bot (user author)
        \<and> evaluate author (permissions c) \<longrightarrow>
      messageCreate msg s = (invoke (MessageCall cb msg args), s))"
proof (intro conjI impI)
  show "split ''!greet alice bob'' = [''!greet'', ''alice'', ''bob'']"
    by (rule split_greet)
  show "startsWith ''!greet'' ''!''"
    by (simp add: startsWith_def)
  show "substring ''!greet'' (length ''!'') = ''greet''"
    by (simp add: substring_def)
next
  assume h: "prefix s = ''!'' \<and> content msg = ''!greet alice bob''
        \<and> messageCommands s ''greet'' = Some c \<and> callback c = Some cb
        \<and> member msg = Some author \<and> \<not> bot (user author)
        \<and> evaluate author (permissions c)"
  then have "split (content msg) = ''!greet'' # [''alice'', ''bob'']"
    using split_greet by simp
  moreover have "startsWith ''!greet'' (prefix s)"
    using h by (simp add: startsWith_def)
  moreover have "messageCommands s (substring ''!greet'' (length (prefix s))) = Some c"
    using h by (simp add: substring_def)
  ultimately show "messageCreate msg s = (invoke (MessageCall cb msg [''alice'', ''bob'']), s)"
    using h messageCreate_invokes [of msg "''!greet''" "[''alice'', ''bob'']" s c cb author] by simp
next
  assume "split (content msg) = tok # args \<and> tok \<noteq> [] \<and> startsWith tok (prefix s)
        \<and> messageCommands s (substring tok (length (prefix s))) = Some c
        \<and> callback c = Some cb
        \<and> member msg = Some author \<and> \<not> bot (user author)
        \<and> evaluate author (permissions c)"
  then show "messageCreate msg s = (invoke (MessageCall cb msg args), s)"
    using messageCreate_invokes [of msg tok args s c cb author] by simp
qed

theorem greet_tokenized_witness:
  "messageCreate
     \<lparr>content = ''!greet alice bob'',
       member = Some \<lparr>user = \<lparr>userId = ''u1'', bot = False\<rparr>, memberPermissions = [],
                       roles = [''r1'']\<rparr>\<rparr>
     ((newWrappedClient None)
        \<lparr>messageCommands :=
           [''greet'' \<mapsto> \<lparr>name = ''greet'', callback = Some (Callback 7),
                            permissions = Some \<lparr>flags = None, allowed = Some {''r1''},
                                                denied = None\<rparr>\<rparr>]\<rparr>)
   = (\<lparr>calls = [MessageCall (Callback 7)
                  \<lparr>content = ''!greet alice bob'',
                    member = Some \<lparr>user = \<lparr>userId = ''u1'', bot = False\<rparr>,
                                    memberPermissions = [], roles = [''r1'']\<rparr>\<rparr>
                  [''alice'', ''bob'']],
        raised = None\<rparr>,
      (newWrappedClient None)
        \<lparr>messageCommands :=
           [''greet'' \<mapsto> \<lparr>name = ''greet'', callback = Some (Callback 7),
                            permissions = Some \<lparr>flags = None, allowed = Some {''r1''},
                                                denied = None\<rparr>\<rparr>]\<rparr>)"
  using greet_tokenized
          [of "(newWrappedClient None)
                 \<lparr>messageCommands :=
                    [''greet'' \<mapsto> \<lparr>name = ''greet'', callback = Some (Callback 7),
                                     permissions = Some \<lparr>flags = None, allowed = Some {''r1''},
                                                         denied = None\<rparr>\<rparr>]\<rparr>"
              "\<lparr>content = ''!greet alice bob'',
                member = Some \<lparr>user = \<lparr>userId = ''u1'', bot = False\<rparr>, memberPermissions = [],
                                roles = [''r1'']\<rparr>\<rparr>"
              "\<lparr>name = ''greet'', callback = Some (Callback 7),
                permissions = Some \<lparr>flags = None, allowed = Some {''r1''}, denied = None\<rparr>\<rparr>"
              "Callback 7"
              "\<lparr>user = \<lparr>userId = ''u1'', bot = False\<rparr>, memberPermissions = [], roles = [''r1'']\<rparr>"
              "''!greet''" "[''alice'', ''bob'']"]
  by (simp add: newWrappedClient_def evaluate_def someIn_def invoke_def startsWith_def
      substring_def)

subsection \<open>Dispatch of interactions\<close>

text \<open>
  C1. On a client with nothing registered, an interaction of each of the four kinds
  whose identifier is \<^verbatim>\<open>missing\<close> invokes no callback and raises a TypeError: the
  listener reads \<^verbatim>\<open>callback\<close> from \<^verbatim>\<open>undefined\<close>.
\<close>

theorem interactionCreate_miss_raises:
  "interactionCreate (ButtonInteraction ''missing'') (newWrappedClient None) =
     (\<lparr>calls = [], raised = Some TypeError\<rparr>, newWrappedClient None)
   \<and> interactionCreate (CommandInteraction ''missing'' []) (newWrappedClient None) =
     (\<lparr>calls = [], raised = Some TypeError\<rparr>, newWrappedClient None)
   \<and> interactionCreate (ContextMenuInteraction ''missing'' USER ''1'' None None) (newWrappedClient None) =
     (\<lparr>calls = [], raised = Some TypeError\<rparr>, newWrappedClient None)
   \<and> interactionCreate (SelectMenuInteraction ''missing'') (newWrappedClient None) =
     (\<lparr>calls = [], raised = Some TypeError\<rparr>, newWrappedClient None)"
  by (simp add: interactionCreate_def commandBlock_def buttonBlock_def contextMenuBlock_def
      selectMenuBlock_def callbackOf_def andThen_def silent_def raise_def newWrappedClient_def
      getProperty_missing)

text \<open>
  C8. A context-menu interaction whose command is registered with a callback always
  invokes that callback, once, with the resolved target; the target is absent when the
  guild is absent, when a message is targeted and the channel is absent, when the
  targeted member is not among the guild's cached members, and when the targeted
  message is not among the channel's cached messages.
\<close>

theorem contextMenu_absent_target:
  "commands s n = Some c \<and> callback c = Some cb \<longrightarrow>
     interactionCreate (ContextMenuInteraction n ty tid g ch) s =
       (invoke (ContextMenuCall cb (ContextMenuInteraction n ty tid g ch)
                  (resolveTarget ty tid g ch)), s)
     \<and> (g = None \<longrightarrow>
        interactionCreate (ContextMenuInteraction n ty tid g ch) s =
          (invoke (ContextMenuCall cb (ContextMenuInteraction n ty tid g ch) None), s))
     \<and> (ty = MESSAGE \<and> ch = None \<longrightarrow>
        interactionCreate (ContextMenuInteraction n ty tid g ch) s =
          (invoke (ContextMenuCall cb (ContextMenuInteraction n ty tid g ch) None), s))
     \<and> (ty = USER \<and> g = Some gd \<and> members gd tid = None \<longrightarrow>
        interactionCreate (ContextMenuInteraction n ty tid g ch) s =
          (invoke (ContextMenuCall cb (ContextMenuInteraction n ty tid g ch) None), s))
     \<and> (ty = MESSAGE \<and> ch = Some cn \<and> messages cn tid = None \<longrightarrow>
        interactionCreate (ContextMenuInteraction n ty tid g ch) s =
          (invoke (ContextMenuCall cb (ContextMenuInteraction n ty tid g ch) None), s))"
  using interactionCreate_contextMenu [of s n c cb ty tid g ch]
  by (auto simp add: resolveTarget_def split: option.splits)

theorem contextMenu_absent_target_witness:
  "interactionCreate
     (ContextMenuInteraction ''info'' USER ''u9'' (Some \<lparr>members = Map.empty\<rparr>) None)
     ((newWrappedClient None)
        \<lparr>commands :=
           [''info'' \<mapsto> \<lparr>name = ''info'', callback = Some (Callback 5), permissions = None,
                            commandClass = ContextMenuCommand, guildId = None,
                            data = ''info-data''\<rparr>]\<rparr>)
   = (\<lparr>calls = [ContextMenuCall (Callback 5)
                  (ContextMenuInteraction ''info'' USER ''u9'' (Some \<lparr>members = Map.empty\<rparr>) None)
                  None],
        raised = None\<rparr>,
      (newWrappedClient None)
        \<lparr>commands :=
           [''info'' \<mapsto> \<lparr>name = ''info'', callback = Some (Callback 5), permissions = None,
                            commandClass = ContextMenuCommand, guildId = None,
                            data = ''info-data''\<rparr>]\<rparr>)
   \<and> calls (fst (interactionCreate
                   (ContextMenuInteraction ''info'' MESSAGE ''m3'' None None)
                   ((newWrappedClient None)
                      \<lparr>commands :=
                         [''info'' \<mapsto> \<lparr>name = ''info'', callback = Some (Callback 5),
                                          permissions = None, commandClass = ContextMenuCommand,
                                          guildId = None, data = ''info-data''\<rparr>]\<rparr>)))
     = [ContextMenuCall (Callback 5) (ContextMenuInteraction ''info'' MESSAGE ''m3'' None None) None]"
  using contextMenu_absent_target
          [of "(newWrappedClient None)
                 \<lparr>commands :=
                    [''info'' \<mapsto> \<lparr>name = ''info'', callback = Some (Callback 5),
                                     permissions = None, commandClass = ContextMenuCommand,
                                     guildId = None, data = ''info-data''\<rparr>]\<rparr>"
              "''info''"
              "\<lparr>name = ''info'', callback = Some (Callback 5), permissions = None,
                commandClass = ContextMenuCommand, guildId = None, data = ''info-data''\<rparr>"
              "Callback 5" USER "''u9''" "Some \<lparr>members = Map.empty\<rparr>" None
              "\<lparr>members = Map.empty\<rparr>"]
        contextMenu_absent_target
          [of "(newWrappedClient None)
                 \<lparr>commands :=
                    [''info'' \<mapsto> \<lparr>name = ''info'', callback = Some (Callback 5),
                                     permissions = None, commandClass = ContextMenuCommand,
                                     guildId = None, data = ''info-data''\<rparr>]\<rparr>"
              "''info''"
              "\<lparr>name = ''info'', callback = Some (Callback 5), permissions = None,
                commandClass = ContextMenuCommand, guildId = None, data = ''info-data''\<rparr>"
              "Callback 5" MESSAGE "''m3''" None None]
  by (simp add: newWrappedClient_def invoke_def resolveTarget_def)

subsection \<open>Frame of the listeners\<close>

text \<open>
  C10. Neither listener changes the state: after \<^verbatim>\<open>messageCreate\<close> or
  \<^verbatim>\<open>interactionCreate\<close> the whole record is as before. \<^verbatim>\<open>registerEvent\<close> and \<^verbatim>\<open>login\<close>
  leave the prefix and both registries unchanged.
\<close>

theorem routing_preserves_state:
  "snd (messageCreate msg s) = s
   \<and> snd (interactionCreate i s) = s
   \<and> prefix (snd (registerEvent e s)) = prefix s
   \<and> messageCommands (snd (registerEvent e s)) = messageCommands s
   \<and> commands (snd (registerEvent e s)) = commands s
   \<and> prefix (login s) = prefix s
   \<and> messageCommands (login s) = messageCommands s
   \<and> commands (login s) = commands s"
proof (intro conjI)
  show "snd (messageCreate msg s) = s"
    by (simp add: messageCreate_def split: list.split option.split property.split)
  show "snd (interactionCreate i s) = s"
    by (simp add: interactionCreate_def)
  show "prefix (snd (registerEvent e s)) = prefix s"
    and "messageCommands (snd (registerEvent e s)) = messageCommands s"
    and "commands (snd (registerEvent e s)) = commands s"
    by (simp_all add: registerEvent_def split: option.split)
  show "prefix (login s) = prefix s"
    and "messageCommands (login s) = messageCommands s"
    and "commands (login s) = commands s"
    by (simp_all add: login_def registerEvent_def)
qed

end
